theory Spec2Isabelle
  imports
    Main
    "HOL-Library.Multiset"
    "HOL-Library.Sublist"
    "HOL-Library.Word"
    "HOL-Library.Char_ord"
    "HOL-Library.List_Lexorder"
begin

section \<open>Data model of \<^verbatim>\<open>assets/js/app.js\<close>\<close>

text \<open>
  A catalog entry. The dataset is a JSON array of such objects; \<open>short\<close> may be
  missing, and a missing \<open>syn\<close> is the empty list.
\<close>

record icd =
  code :: string
  name :: string
  kind :: string
  short :: "string option"
  syn :: "string list"

text \<open>
  What \<^verbatim>\<open>JSON.parse\<close> can hand back for the dataset: an array of entries, \<^verbatim>\<open>null\<close>,
  or another value (an object, a number or a boolean; a bare string is left out). Of a
  value that is neither an array nor \<^verbatim>\<open>null\<close> the program only ever looks at its
  truthiness (\<^verbatim>\<open>false\<close> and \<^verbatim>\<open>0\<close> are falsy), which is the flag of \<open>JOther\<close>: the
  array's methods \<^verbatim>\<open>slice\<close> and \<^verbatim>\<open>map\<close> it does not have, and its \<^verbatim>\<open>length\<close> can be
  read. Reading a property of \<^verbatim>\<open>null\<close> throws.
\<close>

datatype json = JArray "icd list" | JNull | JOther bool

text \<open>The object kept in IndexedDB under \<^verbatim>\<open>KEY\<close>: \<^verbatim>\<open>{ version, updated, data }\<close>.\<close>

record snapshot =
  version :: string
  updated :: int
  data :: json

text \<open>
  The two values kept in \<^verbatim>\<open>localStorage\<close>. They are written with \<^verbatim>\<open>JSON.stringify\<close>
  and read back with \<^verbatim>\<open>JSON.parse\<close>; the model keeps the value that the text stands
  for.
\<close>

datatype stored = FavsJson "string list" | LruJson "string \<rightharpoonup> int"

text \<open>
  The exceptions that can end a handler: \<^verbatim>\<open>fetch\<close> rejecting, the
  \<^verbatim>\<open>Error('Fetch failed: ' + status)\<close> of \<^verbatim>\<open>fetchAndCache\<close>, \<^verbatim>\<open>JSON.parse\<close> on
  text that is not JSON, an IndexedDB request that fails, and a method call on a value
  that has no such method.
\<close>

datatype js_error =
    NetworkError
  | FetchFailed nat
  | SyntaxError
  | StorageUnavailable
  | TypeError

text \<open>What \<^verbatim>\<open>fetch(DATA_URL)\<close> settles to: a rejection, or a status and a body.\<close>

type_synonym byte = "8 word"

text \<open>
  The text of the search box, as JavaScript has it: a sequence of UTF-16 code units.
  (Codes and the other texts are only compared and joined, and are kept as \<open>string\<close>.)
\<close>

type_synonym utf16 = "16 word list"

datatype response = Rejected | Response nat "byte list"

text \<open>What the export handler shows to the user.\<close>

datatype export_result = Alert string | Download string string

subsection \<open>Config\<close>

definition KEY :: string where
  "KEY = ''icd9-rich''"

definition MAX_RESULTS :: nat where
  "MAX_RESULTS = 100"

definition FAV_STORAGE_KEY :: string where
  "FAV_STORAGE_KEY = ''icd9:favs''"

definition FAV_LRU_KEY :: string where
  "FAV_LRU_KEY = ''icd9:favs:lru''"

subsection \<open>State\<close>

text \<open>
  The module-level variables \<^verbatim>\<open>FUSE\<close>, \<^verbatim>\<open>DATA\<close>, \<^verbatim>\<open>FAVS\<close>, \<^verbatim>\<open>FAV_LRU\<close>, the two
  browser stores, and the parts of the page the handlers write to. \<^verbatim>\<open>FAVS\<close> is a
  JavaScript \<^verbatim>\<open>Set\<close>: its elements in insertion order. \<^verbatim>\<open>FUSE\<close> holds the
  collection the index was built over; the matcher itself is the library's and is a
  parameter of \<open>renderSearch\<close>. \<open>idb_ok\<close> says whether IndexedDB requests succeed.
  The two card sections are kept as the lists of entries drawn in them. The count,
  source and updated pills are formatted text and are left out.
\<close>

record state =
  FUSE :: "json option"
  DATA :: "json option"
  FAVS :: "string list"
  FAV_LRU :: "string \<rightharpoonup> int"
  localStorage :: "string \<rightharpoonup> stored"
  idb_ok :: bool
  idb :: "string \<rightharpoonup> snapshot"
  q_value :: utf16
  els_results :: "icd list"
  els_favs :: "icd list"
  favWrap_hidden :: bool
  favCount :: nat
  resTitle :: utf16
  cacheState :: string
  cacheVersion :: string

subsection \<open>Hash util\<close>

text \<open>
  \<^verbatim>\<open>b.toString(16).padStart(2,'0')\<close> for the bytes of the digest. \<open>hexdigit\<close> is only
  ever applied to a number below 16.
\<close>

definition hexdigit :: "nat \<Rightarrow> char" where
  "hexdigit d = ''0123456789abcdef'' ! d"

fun toString16 :: "nat \<Rightarrow> string" where
  "toString16 n =
     (if n < 16 then [hexdigit n] else toString16 (n div 16) @ [hexdigit (n mod 16)])"

declare toString16.simps [simp del]

definition padStart :: "nat \<Rightarrow> char \<Rightarrow> string \<Rightarrow> string" where
  "padStart n c s = replicate (n - length s) c @ s"

text \<open>
  \<open>digest\<close> is \<^verbatim>\<open>crypto.subtle.digest('SHA-256', _)\<close>, taken to be available and to
  return.
\<close>

definition sha256Hex :: "(byte list \<Rightarrow> byte list) \<Rightarrow> byte list \<Rightarrow> string" where
  "sha256Hex digest buffer =
     concat (map (\<lambda>b. padStart 2 (CHR ''0'') (toString16 (unat b))) (digest buffer))"

subsection \<open>Helpers\<close>

text \<open>The em dash and the ellipsis of the status texts, as UTF-8.\<close>

definition dash :: string where
  "dash = [CHR 0xE2, CHR 0x80, CHR 0x94]"

definition ellipsis :: string where
  "ellipsis = [CHR 0xE2, CHR 0x80, CHR 0xA6]"

text \<open>
  \<^verbatim>\<open>setMeta({version, cacheState})\<close>: an argument that is \<^verbatim>\<open>undefined\<close> is \<open>None\<close>.
  \<^verbatim>\<open>version || dash\<close> shows the dash for the empty string; \<^verbatim>\<open>if (cacheState)\<close> skips
  it.
\<close>

definition setMeta :: "string option \<Rightarrow> string option \<Rightarrow> state \<Rightarrow> state" where
  "setMeta ver cs st =
     (let st1 = (case ver of
                   None \<Rightarrow> st
                 | Some v \<Rightarrow> st\<lparr>cacheVersion := (if v = [] then dash else v)\<rparr>)
      in case cs of
           None \<Rightarrow> st1
         | Some c \<Rightarrow> if c = [] then st1 else st1\<lparr>cacheState := c\<rparr>)"

definition saveFavs :: "state \<Rightarrow> state" where
  "saveFavs st =
     st\<lparr>localStorage :=
          (localStorage st)(FAV_STORAGE_KEY \<mapsto> FavsJson (FAVS st),
                            FAV_LRU_KEY \<mapsto> LruJson (FAV_LRU st))\<rparr>"

definition isFav :: "state \<Rightarrow> string \<Rightarrow> bool" where
  "isFav st c = (c \<in> set (FAVS st))"

text \<open>
  \<^verbatim>\<open>FAV_LRU[code] = Date.now()\<close>. The assignment writes the object's own property,
  except under the name \<^verbatim>\<open>__proto__\<close> when the object has no own property of that name:
  there it calls the inherited setter, which ignores a number, and nothing is stored.
\<close>

definition touchFav :: "int \<Rightarrow> string \<Rightarrow> state \<Rightarrow> state" where
  "touchFav now c st =
     (if c = ''__proto__'' \<and> FAV_LRU st c = None then st
      else st\<lparr>FAV_LRU := (FAV_LRU st)(c \<mapsto> now)\<rparr>)"

text \<open>\<^verbatim>\<open>Set.prototype.add\<close> and \<^verbatim>\<open>Set.prototype.delete\<close> on the insertion-ordered set.\<close>

definition set_add :: "string \<Rightarrow> string list \<Rightarrow> string list" where
  "set_add c xs = (if c \<in> set xs then xs else xs @ [c])"

definition set_delete :: "string \<Rightarrow> string list \<Rightarrow> string list" where
  "set_delete c xs = removeAll c xs"

text \<open>
  JavaScript truthiness of \<^verbatim>\<open>DATA\<close> (\<open>None\<close> is the \<^verbatim>\<open>null\<close> the variable starts
  with); an array is truthy even when it is empty.
\<close>

fun truthy :: "json option \<Rightarrow> bool" where
  "truthy None = False"
| "truthy (Some (JArray d)) = True"
| "truthy (Some JNull) = False"
| "truthy (Some (JOther b)) = b"

text \<open>
  \<^verbatim>\<open>String.prototype.trim\<close> takes the white space and the line terminators of the
  language from both ends: TAB, LF, VT, FF, CR, the space, the no-break space, the byte
  order mark, the line and the paragraph separator, and the other space separators of
  Unicode. Each is one code unit.
\<close>

definition whiteSpace :: "16 word list" where
  "whiteSpace =
     [0x0009, 0x000A, 0x000B, 0x000C, 0x000D, 0x0020, 0x00A0, 0x1680,
      0x2000, 0x2001, 0x2002, 0x2003, 0x2004, 0x2005, 0x2006, 0x2007, 0x2008, 0x2009,
      0x200A, 0x2028, 0x2029, 0x202F, 0x205F, 0x3000, 0xFEFF]"

definition isWhiteSpace :: "16 word \<Rightarrow> bool" where
  "isWhiteSpace c = (c \<in> set whiteSpace)"

definition trim :: "utf16 \<Rightarrow> utf16" where
  "trim s = rev (dropWhile isWhiteSpace (rev (dropWhile isWhiteSpace s)))"

text \<open>The code units of a text of characters below U+0080.\<close>

definition units :: "string \<Rightarrow> utf16" where
  "units s = map (\<lambda>c. of_nat (of_char c)) s"

subsection \<open>Favourites (pinned)\<close>

text \<open>
  \<^verbatim>\<open>FAV_LRU\<close> is a plain object. The model keeps its own properties, the map from codes
  to timestamps; that is also what \<^verbatim>\<open>JSON.stringify\<close> writes. Beside them the object
  has the properties every object inherits, under these names.
\<close>

definition objectPrototypeKeys :: "string list" where
  "objectPrototypeKeys =
     [''__proto__'', ''constructor'', ''hasOwnProperty'', ''isPrototypeOf'',
      ''propertyIsEnumerable'', ''toLocaleString'', ''toString'', ''valueOf'',
      ''__defineGetter__'', ''__defineSetter__'', ''__lookupGetter__'',
      ''__lookupSetter__'']"

text \<open>
  \<^verbatim>\<open>FAV_LRU[c] || 0\<close> as a number: the code's own timestamp; 0 when the object has no
  such property at all; and \<open>None\<close>, not a number, when the property read is an
  inherited one, which is a function or an object and so is truthy.
\<close>

definition lruOf :: "state \<Rightarrow> string \<Rightarrow> int option" where
  "lruOf st c =
     (case FAV_LRU st c of
        Some t \<Rightarrow> Some t
      | None \<Rightarrow> if c \<in> set objectPrototypeKeys then None else Some 0)"

text \<open>
  The comparator of \<^verbatim>\<open>getFavRecords\<close>:
  \<^verbatim>\<open>(FAV_LRU[b.code]||0) - (FAV_LRU[a.code]||0) || a.code.localeCompare(b.code)\<close>.
  A difference that is 0 or, with an operand that is not a number, \<^verbatim>\<open>NaN\<close> is falsy
  and gives way to \<^verbatim>\<open>localeCompare\<close>, which is the platform's collation and is a
  parameter.
\<close>

definition favCompare :: "(string \<Rightarrow> string \<Rightarrow> int) \<Rightarrow> state \<Rightarrow> icd \<Rightarrow> icd \<Rightarrow> int" where
  "favCompare localeCompare st a b =
     (case (lruOf st (code b), lruOf st (code a)) of
        (Some x, Some y) \<Rightarrow>
          (let d = x - y in if d \<noteq> 0 then d else localeCompare (code a) (code b))
      | _ \<Rightarrow> localeCompare (code a) (code b))"

text \<open>
  \<^verbatim>\<open>Array.prototype.sort(cmp)\<close> is a stable sort: \<open>a\<close> goes before \<open>b\<close> when
  \<open>cmp a b < 0\<close>, and entries that compare equal keep their order. For a comparator
  that is a consistent ordering this fixes the result, which insertion from the right
  computes. (For any other comparator the language leaves the order open.)
\<close>

fun array_insert :: "('a \<Rightarrow> 'a \<Rightarrow> int) \<Rightarrow> 'a \<Rightarrow> 'a list \<Rightarrow> 'a list" where
  "array_insert cmp x [] = [x]"
| "array_insert cmp x (y # ys) =
     (if cmp x y \<le> 0 then x # y # ys else y # array_insert cmp x ys)"

definition array_sort :: "('a \<Rightarrow> 'a \<Rightarrow> int) \<Rightarrow> 'a list \<Rightarrow> 'a list" where
  "array_sort cmp xs = foldr (array_insert cmp) xs []"

text \<open>
  \<^verbatim>\<open>new Map(all.map(r => [r.code, r]))\<close>: of two entries with one code the later one
  stays.
\<close>

definition byCode :: "icd list \<Rightarrow> string \<rightharpoonup> icd" where
  "byCode all = map_of (rev (map (\<lambda>r. (code r, r)) all))"

text \<open>
  \<^verbatim>\<open>getFavRecords(all)\<close>, with its local \<open>favList\<close> for an array \<open>all\<close>. A falsy
  \<open>all\<close> gives the empty list; on a truthy value that is not an array \<^verbatim>\<open>all.map\<close> is
  not a function. \<^verbatim>\<open>.filter(Boolean)\<close> drops the codes the map does not have.
\<close>

definition favList :: "(string \<Rightarrow> string \<Rightarrow> int) \<Rightarrow> state \<Rightarrow> icd list \<Rightarrow> icd list" where
  "favList localeCompare st all =
     array_sort (favCompare localeCompare st) (List.map_filter (byCode all) (FAVS st))"

definition getFavRecords ::
  "(string \<Rightarrow> string \<Rightarrow> int) \<Rightarrow> state \<Rightarrow> json option \<Rightarrow> js_error + icd list" where
  "getFavRecords localeCompare st all =
     (if \<not> truthy all then Inr []
      else case all of
             Some (JArray d) \<Rightarrow> Inr (favList localeCompare st d)
           | _ \<Rightarrow> Inl TypeError)"

subsection \<open>Search render (favourites pinned first)\<close>

text \<open>
  The candidate pool \<open>hits\<close>: \<^verbatim>\<open>q ? FUSE.search(q).map(r => r.item)
  : DATA.slice(0, MAX_RESULTS*2)\<close>. \<open>search\<close> is the library's matcher, given the indexed
  collection and the query; it returns the matched entries best first.
\<close>

definition searchHits ::
  "(json \<Rightarrow> utf16 \<Rightarrow> icd list) \<Rightarrow> state \<Rightarrow> js_error + icd list" where
  "searchHits search st =
     (let q = trim (q_value st)
      in if q \<noteq> [] then
           (case FUSE st of Some f \<Rightarrow> Inr (search f q) | None \<Rightarrow> Inl TypeError)
         else
           (case DATA st of
              Some (JArray d) \<Rightarrow> Inr (take (MAX_RESULTS * 2) d)
            | _ \<Rightarrow> Inl TypeError))"

text \<open>
  The loop \<^verbatim>\<open>for (const it of hits) (favSet.has(it.code) ? favHits : otherHits).push(it)\<close>,
  with the two arrays as accumulators.
\<close>

fun partitionHits ::
  "string list \<Rightarrow> icd list \<Rightarrow> icd list \<times> icd list \<Rightarrow> icd list \<times> icd list" where
  "partitionHits favSet [] (favHits, otherHits) = (favHits, otherHits)"
| "partitionHits favSet (it # hits) (favHits, otherHits) =
     (if code it \<in> set favSet
      then partitionHits favSet hits (favHits @ [it], otherHits)
      else partitionHits favSet hits (favHits, otherHits @ [it]))"

text \<open>
  \<^verbatim>\<open>favHits.find(x => x.code === r.code)\<close> as the filter's test: an entry, when found, is
  truthy.
\<close>

definition findCode :: "icd list \<Rightarrow> icd \<Rightarrow> bool" where
  "findCode favHits r = (find (\<lambda>x. code x = code r) favHits \<noteq> None)"

text \<open>
  \<^verbatim>\<open>renderSearch()\<close>. The result is the state when the function ended and the exception
  it ended with, if any. The results section is drawn before \<^verbatim>\<open>getFavRecords\<close> is
  called, so an exception there leaves it drawn.
\<close>

definition renderSearch ::
  "(json \<Rightarrow> utf16 \<Rightarrow> icd list) \<Rightarrow> (string \<Rightarrow> string \<Rightarrow> int) \<Rightarrow> state
     \<Rightarrow> state \<times> js_error option" where
  "renderSearch search localeCompare st =
     (if \<not> truthy (DATA st) \<or> FUSE st = None then (st, None)
      else
        let q = trim (q_value st) in
        case searchHits search st of
          Inl e \<Rightarrow> (st, Some e)
        | Inr hits \<Rightarrow>
            (case partitionHits (FAVS st) hits ([], []) of
               (favHits, otherHits) \<Rightarrow>
                 let st1 = st\<lparr>els_results := take MAX_RESULTS otherHits\<rparr> in
                 (case getFavRecords localeCompare st1 (DATA st1) of
                   Inl e \<Rightarrow> (st1, Some e)
                 | Inr allFavs \<Rightarrow>
                     let favFiltered =
                           (if q \<noteq> [] then filter (findCode favHits) allFavs
                            else allFavs);
                         title =
                           (if q \<noteq> [] then units ''Results for \"'' @ q @ units ''\"''
                            else units ''Results'')
                     in (st1\<lparr>favWrap_hidden := (length favFiltered = 0),
                             els_favs := favFiltered,
                             favCount := length allFavs,
                             resTitle := title\<rparr>,
                         None))))"

subsection \<open>IndexedDB (dataset cache)\<close>

text \<open>
  \<^verbatim>\<open>idbGet\<close>, \<^verbatim>\<open>idbSet\<close>, \<^verbatim>\<open>idbDel\<close>: each opens the database and runs one request;
  the promise rejects when the database is not available.
\<close>

definition idbGet :: "string \<Rightarrow> state \<Rightarrow> js_error + snapshot option" where
  "idbGet key st = (if idb_ok st then Inr (idb st key) else Inl StorageUnavailable)"

definition idbSet :: "string \<Rightarrow> snapshot \<Rightarrow> state \<Rightarrow> js_error + state" where
  "idbSet key v st =
     (if idb_ok st then Inr (st\<lparr>idb := (idb st)(key \<mapsto> v)\<rparr>) else Inl StorageUnavailable)"

definition idbDel :: "string \<Rightarrow> state \<Rightarrow> js_error + state" where
  "idbDel key st =
     (if idb_ok st then Inr (st\<lparr>idb := (idb st)(key := None)\<rparr>) else Inl StorageUnavailable)"

subsection \<open>Fuse bootstrap, load and cache of the dataset\<close>

text \<open>
  \<^verbatim>\<open>buildFuse(data)\<close> replaces the index by one over \<open>data\<close>. The library's
  constructor is taken to return for every collection.
\<close>

definition buildFuse :: "json \<Rightarrow> state \<Rightarrow> state" where
  "buildFuse d st = st\<lparr>FUSE := Some d\<rparr>"

text \<open>
  \<^verbatim>\<open>loadFromCache()\<close>: a hit needs \<^verbatim>\<open>cached && cached.data && Array.isArray(cached.data)\<close>.
\<close>

definition loadFromCache :: "state \<Rightarrow> state \<times> (js_error + bool)" where
  "loadFromCache st =
     (case idbGet KEY st of
        Inl e \<Rightarrow> (st, Inl e)
      | Inr None \<Rightarrow> (setMeta None (Some ''miss'') st, Inr False)
      | Inr (Some cached) \<Rightarrow>
          (case data cached of
             JArray d \<Rightarrow>
               (setMeta (Some (version cached)) (Some ''hit'')
                  (buildFuse (JArray d) (st\<lparr>DATA := Some (JArray d)\<rparr>)),
                Inr True)
           | JNull \<Rightarrow> (setMeta None (Some ''miss'') st, Inr False)
           | JOther b \<Rightarrow> (setMeta None (Some ''miss'') st, Inr False)))"

text \<open>\<^verbatim>\<open>resp.ok\<close>: a status from 200 to 299.\<close>

definition ok :: "nat \<Rightarrow> bool" where
  "ok status = (200 \<le> status \<and> status \<le> 299)"

text \<open>
  \<^verbatim>\<open>fetchAndCache()\<close>. \<open>resp\<close> is what the fetch settles to, \<open>now\<close> is \<^verbatim>\<open>Date.now()\<close>,
  \<open>parse\<close> is \<^verbatim>\<open>JSON.parse\<close> after the UTF-8 decoding (\<open>None\<close> when it throws). The
  hash is taken from the buffer before the text is decoded. A rejected fetch stands
  also for a body that fails to arrive. The last \<^verbatim>\<open>setMeta\<close> is given
  \<^verbatim>\<open>count: DATA.length\<close>: when the payload is \<^verbatim>\<open>null\<close> this read throws, after the
  snapshot has been written and \<^verbatim>\<open>DATA\<close> and \<^verbatim>\<open>FUSE\<close> have been replaced.
\<close>

definition fetchAndCache ::
  "(byte list \<Rightarrow> byte list) \<Rightarrow> (byte list \<Rightarrow> json option) \<Rightarrow> int \<Rightarrow> response \<Rightarrow> state
     \<Rightarrow> state \<times> js_error option" where
  "fetchAndCache digest parse now resp st =
     (let st0 = setMeta None (Some (''fetching'' @ ellipsis)) st in
      case resp of
        Rejected \<Rightarrow> (st0, Some NetworkError)
      | Response status buf \<Rightarrow>
          if \<not> ok status then (st0, Some (FetchFailed status))
          else
            let vers = sha256Hex digest buf in
            (case parse buf of
               None \<Rightarrow> (st0, Some SyntaxError)
             | Some js \<Rightarrow>
                 (case idbSet KEY \<lparr>version = vers, updated = now, data = js\<rparr> st0 of
                    Inl e \<Rightarrow> (st0, Some e)
                  | Inr st1 \<Rightarrow>
                      let st2 = buildFuse js (st1\<lparr>DATA := Some js\<rparr>) in
                      if js = JNull then (st2, Some TypeError)
                      else (setMeta (Some vers) (Some ''updated'') st2, None))))"

subsection \<open>Events\<close>

text \<open>
  \<^verbatim>\<open>onStarClick(e)\<close>. \<open>btn_code\<close> is the \<^verbatim>\<open>data-code\<close> of the star button that was
  clicked, \<open>None\<close> when the click was not on a star button; \<^verbatim>\<open>if (!code) return\<close> also
  stops on the empty string. \<open>now\<close> is \<^verbatim>\<open>Date.now()\<close>.
\<close>

definition onStarClick ::
  "(json \<Rightarrow> utf16 \<Rightarrow> icd list) \<Rightarrow> (string \<Rightarrow> string \<Rightarrow> int) \<Rightarrow> int \<Rightarrow> string option
     \<Rightarrow> state \<Rightarrow> state \<times> js_error option" where
  "onStarClick search localeCompare now btn_code st =
     (case btn_code of
        None \<Rightarrow> (st, None)
      | Some c \<Rightarrow>
          if c = [] then (st, None)
          else
            let st1 =
                  (if c \<in> set (FAVS st)
                   then st\<lparr>FAVS := set_delete c (FAVS st),
                           FAV_LRU := (FAV_LRU st)(c := None)\<rparr>
                   else touchFav now c (st\<lparr>FAVS := set_add c (FAVS st)\<rparr>))
            in renderSearch search localeCompare (saveFavs st1))"

text \<open>A run of star clicks, each with its clock reading.\<close>

fun starClicks ::
  "(json \<Rightarrow> utf16 \<Rightarrow> icd list) \<Rightarrow> (string \<Rightarrow> string \<Rightarrow> int) \<Rightarrow> (int \<times> string option) list
     \<Rightarrow> state \<Rightarrow> state" where
  "starClicks search localeCompare [] st = st"
| "starClicks search localeCompare ((now, btn_code) # es) st =
     starClicks search localeCompare es
       (fst (onStarClick search localeCompare now btn_code st))"

text \<open>
  The refresh button: \<^verbatim>\<open>try { await fetchAndCache(); renderSearch(); } catch (e) { ... }\<close>.
  The exception is caught, shown in an alert and returned here beside the state.
\<close>

definition btnRefresh_click ::
  "(byte list \<Rightarrow> byte list) \<Rightarrow> (byte list \<Rightarrow> json option) \<Rightarrow> int \<Rightarrow> response
     \<Rightarrow> (json \<Rightarrow> utf16 \<Rightarrow> icd list) \<Rightarrow> (string \<Rightarrow> string \<Rightarrow> int) \<Rightarrow> state
     \<Rightarrow> state \<times> js_error option" where
  "btnRefresh_click digest parse now resp search localeCompare st =
     (case fetchAndCache digest parse now resp st of
        (st1, Some e) \<Rightarrow> (setMeta None (Some ''error'') st1, Some e)
      | (st1, None) \<Rightarrow>
          (case renderSearch search localeCompare st1 of
             (st2, Some e) \<Rightarrow> (setMeta None (Some ''error'') st2, Some e)
           | (st2, None) \<Rightarrow> (st2, None)))"

text \<open>
  The clear button: \<^verbatim>\<open>await idbDel(KEY); DATA = null; FUSE = null; setMeta(...);
  els.results.innerHTML = ''\<close>.
\<close>

definition btnClear_click :: "state \<Rightarrow> state \<times> js_error option" where
  "btnClear_click st =
     (case idbDel KEY st of
        Inl e \<Rightarrow> (st, Some e)
      | Inr st1 \<Rightarrow>
          ((setMeta (Some dash) (Some ''cleared'') (st1\<lparr>DATA := None, FUSE := None\<rparr>))
             \<lparr>els_results := []\<rparr>,
           None))"

text \<open>
  The export button. \<open>stringify\<close> is \<^verbatim>\<open>JSON.stringify\<close>. The handler reads the cache
  and offers a download; it writes to none of the variables or stores.
\<close>

definition btnExport_click :: "(json \<Rightarrow> string) \<Rightarrow> state \<Rightarrow> js_error + export_result" where
  "btnExport_click stringify st =
     (case idbGet KEY st of
        Inl e \<Rightarrow> Inl e
      | Inr None \<Rightarrow> Inr (Alert ''Nothing in cache.'')
      | Inr (Some cached) \<Rightarrow> Inr (Download ''icd9.json'' (stringify (data cached))))"

subsection \<open>Sample data\<close>

text \<open>An entry with a given code, and a page that has loaded nothing yet.\<close>

definition entry :: "string \<Rightarrow> icd" where
  "entry c = \<lparr>code = c, name = c, kind = ''diagnosis'', short = None, syn = []\<rparr>"

definition blank :: state where
  "blank =
     \<lparr>FUSE = None, DATA = None, FAVS = [], FAV_LRU = Map.empty,
      localStorage = Map.empty, idb_ok = True, idb = Map.empty, q_value = [],
      els_results = [], els_favs = [], favWrap_hidden = False, favCount = 0,
      resTitle = units ''Results'', cacheState = [], cacheVersion = []\<rparr>"

text \<open>The page with a catalog loaded and a set of favourites with their timestamps.\<close>

definition loaded :: "icd list \<Rightarrow> string list \<Rightarrow> (string \<rightharpoonup> int) \<Rightarrow> utf16 \<Rightarrow> state" where
  "loaded d favs lru q =
     blank\<lparr>FUSE := Some (JArray d), DATA := Some (JArray d), FAVS := favs, FAV_LRU := lru,
           q_value := q\<rparr>"

text \<open>A matcher for the samples: the entries whose code starts with the query.\<close>

definition prefixSearch :: "json \<Rightarrow> utf16 \<Rightarrow> icd list" where
  "prefixSearch f q =
     (case f of JArray d \<Rightarrow> filter (\<lambda>r. prefix q (units (code r))) d | _ \<Rightarrow> [])"

text \<open>The bytes of a text of characters below U+0080.\<close>

definition encode :: "string \<Rightarrow> byte list" where
  "encode s = map (\<lambda>c. of_nat (of_char c)) s"

text \<open>A dataset of two entries, as text.\<close>

definition sampleText :: string where
  "sampleText =
     ''[{\"code\":\"002\",\"name\":\"002\",\"kind\":\"diagnosis\"},''
     @ ''{\"code\":\"001\",\"name\":\"001\",\"kind\":\"diagnosis\"}]''"

text \<open>
  A decoder for the samples. It agrees with \<^verbatim>\<open>JSON.parse\<close> on the texts \<^verbatim>\<open>[]\<close>,
  \<^verbatim>\<open>[ ]\<close>, \<^verbatim>\<open>{}\<close>, \<^verbatim>\<open>null\<close> and \<open>sampleText\<close>, and on the empty text, which is not
  JSON.
\<close>

definition sampleParse :: "byte list \<Rightarrow> json option" where
  "sampleParse buf =
     (if buf = encode ''[]'' \<or> buf = encode ''[ ]'' then Some (JArray [])
      else if buf = encode ''{}'' then Some (JOther True)
      else if buf = encode ''null'' then Some JNull
      else if buf = encode sampleText then Some (JArray [entry ''002'', entry ''001''])
      else None)"

text \<open>
  A serialiser for the samples: it writes an array as the list of its entries' codes, in
  the array's order.
\<close>

fun joinWith :: "string \<Rightarrow> string list \<Rightarrow> string" where
  "joinWith sep [] = []"
| "joinWith sep [x] = x"
| "joinWith sep (x # y # ys) = x @ sep @ joinWith sep (y # ys)"

definition sampleStringify :: "json \<Rightarrow> string" where
  "sampleStringify js =
     (case js of
        JArray d \<Rightarrow> ''['' @ joinWith '','' (map (\<lambda>r. ''\"'' @ code r @ ''\"'') d) @ '']''
      | JNull \<Rightarrow> ''null''
      | JOther b \<Rightarrow> ''{}'')"

subsection \<open>Kinds of failure\<close>

text \<open>
  The failures of the network request itself: the rejected fetch and the response with a
  status outside 200 to 299.
\<close>

fun isFetchError :: "js_error \<Rightarrow> bool" where
  "isFetchError NetworkError = True"
| "isFetchError (FetchFailed status) = True"
| "isFetchError SyntaxError = False"
| "isFetchError StorageUnavailable = False"
| "isFetchError TypeError = False"

fun requestSucceeded :: "response \<Rightarrow> bool" where
  "requestSucceeded Rejected = False"
| "requestSucceeded (Response status buf) = ok status"

subsection \<open>Orderings\<close>

text \<open>
  Comparison of two codes character by character, by character code: the collation
  that \<^verbatim>\<open>localeCompare\<close> gives on the digits, capital letters and the dot of the
  dataset's codes.
\<close>

definition lexCompare :: "string \<Rightarrow> string \<Rightarrow> int" where
  "lexCompare a b = (if a < b then - 1 else if a = b then 0 else 1)"

text \<open>
  A collation for the samples with small and capital letters: letters go by the
  alphabet, the small letter before its capital, and after the digits and the
  punctuation. On the sample codes it agrees with \<^verbatim>\<open>localeCompare\<close>, which puts
  \<^verbatim>\<open>a\<close> before \<^verbatim>\<open>B\<close>.
\<close>

definition collationKey :: "char \<Rightarrow> nat" where
  "collationKey c =
     (let n = of_char c in if 65 \<le> n \<and> n \<le> 90 then 2 * (n + 32) + 1 else 2 * n)"

definition collateCompare :: "string \<Rightarrow> string \<Rightarrow> int" where
  "collateCompare a b =
     (if map collationKey a < map collationKey b then - 1
      else if map collationKey a = map collationKey b then 0 else 1)"

text \<open>
  A comparator that is a consistent ordering, as \<^verbatim>\<open>Array.prototype.sort\<close> asks for: of
  two texts one goes before the other or they tie, and going before is transitive.
\<close>

definition consistent :: "(string \<Rightarrow> string \<Rightarrow> int) \<Rightarrow> bool" where
  "consistent cmp =
     ((\<forall>a b. cmp a b \<le> 0 \<or> cmp b a \<le> 0)
      \<and> (\<forall>a b c. cmp a b \<le> 0 \<and> cmp b c \<le> 0 \<longrightarrow> cmp a c \<le> 0))"

text \<open>The timestamp of a code, 0 when it has none.\<close>

definition stamp :: "state \<Rightarrow> string \<Rightarrow> int" where
  "stamp st c = (case FAV_LRU st c of None \<Rightarrow> 0 | Some t \<Rightarrow> t)"

text \<open>
  Most recently touched first, equal timestamps by ascending code in the comparator's
  order: the order in which \<open>a\<close> may stand before \<open>b\<close>.
\<close>

definition recentFirst :: "(string \<Rightarrow> string \<Rightarrow> int) \<Rightarrow> state \<Rightarrow> icd \<Rightarrow> icd \<Rightarrow> bool" where
  "recentFirst cmp st a b =
     (stamp st (code b) < stamp st (code a)
      \<or> stamp st (code a) = stamp st (code b) \<and> cmp (code a) (code b) \<le> 0)"

section \<open>Frame lemmas\<close>

text \<open>What drawing the page and writing the status texts leave alone.\<close>

lemma renderSearch_frame:
  "FAVS (fst (renderSearch search lc st)) = FAVS st
   \<and> FAV_LRU (fst (renderSearch search lc st)) = FAV_LRU st
   \<and> localStorage (fst (renderSearch search lc st)) = localStorage st
   \<and> idb (fst (renderSearch search lc st)) = idb st
   \<and> DATA (fst (renderSearch search lc st)) = DATA st
   \<and> FUSE (fst (renderSearch search lc st)) = FUSE st"
  by (simp add: renderSearch_def Let_def split: sum.splits prod.splits)

lemma setMeta_frame:
  "FAVS (setMeta v c st) = FAVS st
   \<and> FAV_LRU (setMeta v c st) = FAV_LRU st
   \<and> localStorage (setMeta v c st) = localStorage st
   \<and> idb (setMeta v c st) = idb st
   \<and> idb_ok (setMeta v c st) = idb_ok st
   \<and> DATA (setMeta v c st) = DATA st
   \<and> FUSE (setMeta v c st) = FUSE st"
  by (simp add: setMeta_def split: option.splits)

lemma setMeta_cacheVersion:
  "cacheVersion (setMeta (Some v) c st) = (if v = [] then dash else v)"
  by (simp add: setMeta_def Let_def split: option.splits)

section \<open>The partition of the candidate pool\<close>

lemma partitionHits_acc:
  "partitionHits favSet hits (a, b) =
     (a @ filter (\<lambda>it. code it \<in> set favSet) hits,
      b @ filter (\<lambda>it. code it \<notin> set favSet) hits)"
  by (induction hits arbitrary: a b) simp_all

lemma partitionHits_filter:
  "partitionHits favSet hits ([], []) =
     (filter (\<lambda>it. code it \<in> set favSet) hits,
      filter (\<lambda>it. code it \<notin> set favSet) hits)"
  by (simp add: partitionHits_acc)

text \<open>
  Claim C2. The loop of \<^verbatim>\<open>renderSearch\<close> splits the pool \<open>hits\<close> into the entries whose
  code is a favourite and the entries whose code is not. Each part is the pool filtered,
  so it keeps the pool's order; together the two parts hold every entry of the pool as
  often as the pool does, and no entry is in both.
\<close>

theorem partition_complete_disjoint:
  "(case partitionHits favSet hits ([], []) of
      (favHits, otherHits) \<Rightarrow>
        favHits = filter (\<lambda>it. code it \<in> set favSet) hits
        \<and> otherHits = filter (\<lambda>it. code it \<notin> set favSet) hits
        \<and> mset favHits + mset otherHits = mset hits
        \<and> set favHits \<union> set otherHits = set hits
        \<and> set favHits \<inter> set otherHits = {}
        \<and> subseq favHits hits \<and> subseq otherHits hits)"
proof -
  have "mset (filter (\<lambda>it. code it \<in> set favSet) hits)
          + mset (filter (\<lambda>it. code it \<notin> set favSet) hits) = mset hits"
    by (induction hits) simp_all
  moreover have "set (filter (\<lambda>it. code it \<in> set favSet) hits)
          \<union> set (filter (\<lambda>it. code it \<notin> set favSet) hits) = set hits"
    by auto
  moreover have "set (filter (\<lambda>it. code it \<in> set favSet) hits)
          \<inter> set (filter (\<lambda>it. code it \<notin> set favSet) hits) = {}"
    by auto
  ultimately show ?thesis
    by (simp add: partitionHits_filter)
qed

theorem partition_complete_disjoint_witness:
  "partitionHits [''B'', ''D''] [entry ''A'', entry ''B'', entry ''C'', entry ''D''] ([], [])
     = ([entry ''B'', entry ''D''], [entry ''A'', entry ''C''])
   \<and> mset [entry ''B'', entry ''D''] + mset [entry ''A'', entry ''C'']
     = mset [entry ''A'', entry ''B'', entry ''C'', entry ''D'']"
  using partition_complete_disjoint
          [of "[''B'', ''D'']" "[entry ''A'', entry ''B'', entry ''C'', entry ''D'']"]
  by (simp add: entry_def)

section \<open>The favourites list\<close>

subsection \<open>The sort\<close>

lemma mset_array_insert: "mset (array_insert cmp x xs) = add_mset x (mset xs)"
  by (induction xs) simp_all

lemma mset_array_sort: "mset (array_sort cmp xs) = mset xs"
  unfolding array_sort_def by (induction xs) (simp_all add: mset_array_insert)

lemma set_array_sort: "set (array_sort cmp xs) = set xs"
  using mset_array_sort [of cmp xs] by (metis set_mset_mset)

lemma set_array_insert: "set (array_insert cmp x xs) = insert x (set xs)"
  using mset_array_insert [of cmp x xs] by (metis set_mset_mset set_mset_add_mset_insert)

lemma sorted_array_insert:
  assumes total: "\<And>a b. a \<in> A \<Longrightarrow> b \<in> A \<Longrightarrow> cmp a b \<le> 0 \<or> cmp b a \<le> 0"
    and trans: "\<And>a b c. a \<in> A \<Longrightarrow> b \<in> A \<Longrightarrow> c \<in> A \<Longrightarrow>
                  cmp a b \<le> 0 \<Longrightarrow> cmp b c \<le> 0 \<Longrightarrow> cmp a c \<le> 0"
  shows "x \<in> A \<Longrightarrow> set xs \<subseteq> A \<Longrightarrow> sorted_wrt (\<lambda>a b. cmp a b \<le> 0) xs \<Longrightarrow>
         sorted_wrt (\<lambda>a b. cmp a b \<le> 0) (array_insert cmp x xs)"
proof (induction xs)
  case Nil
  then show ?case by simp
next
  case (Cons y ys)
  then have yA: "y \<in> A" and ysA: "set ys \<subseteq> A" by auto
  show ?case
  proof (cases "cmp x y \<le> 0")
    case True
    have "cmp x z \<le> 0" if "z \<in> set ys" for z
    proof -
      from that Cons.prems(3) have "cmp y z \<le> 0" by simp
      with True show ?thesis using trans [of x y z] Cons.prems(1) yA ysA that by blast
    qed
    with True Cons.prems(3) show ?thesis by simp
  next
    case False
    with total [of x y] Cons.prems(1) yA have yx: "cmp y x \<le> 0" by blast
    from Cons.prems(3) have "sorted_wrt (\<lambda>a b. cmp a b \<le> 0) ys" by simp
    with Cons.IH Cons.prems(1) ysA
    have s: "sorted_wrt (\<lambda>a b. cmp a b \<le> 0) (array_insert cmp x ys)" by simp
    from Cons.prems(3) yx have "\<forall>z \<in> set (array_insert cmp x ys). cmp y z \<le> 0"
      by (simp add: set_array_insert)
    with False s show ?thesis by simp
  qed
qed

lemma sorted_array_sort:
  assumes total: "\<And>a b. a \<in> A \<Longrightarrow> b \<in> A \<Longrightarrow> cmp a b \<le> 0 \<or> cmp b a \<le> 0"
    and trans: "\<And>a b c. a \<in> A \<Longrightarrow> b \<in> A \<Longrightarrow> c \<in> A \<Longrightarrow>
                  cmp a b \<le> 0 \<Longrightarrow> cmp b c \<le> 0 \<Longrightarrow> cmp a c \<le> 0"
  shows "set xs \<subseteq> A \<Longrightarrow> sorted_wrt (\<lambda>a b. cmp a b \<le> 0) (array_sort cmp xs)"
proof (induction xs)
  case Nil
  then show ?case by (simp add: array_sort_def)
next
  case (Cons x xs)
  then have "sorted_wrt (\<lambda>a b. cmp a b \<le> 0) (array_sort cmp xs)" by simp
  moreover have "set (array_sort cmp xs) \<subseteq> A" using Cons.prems by (simp add: set_array_sort)
  moreover have "x \<in> A" using Cons.prems by simp
  ultimately have "sorted_wrt (\<lambda>a b. cmp a b \<le> 0) (array_insert cmp x (array_sort cmp xs))"
    using sorted_array_insert [of A cmp x "array_sort cmp xs"] total trans by blast
  then show ?case by (simp add: array_sort_def)
qed

subsection \<open>The comparator\<close>

lemma lruOf_stamp:
  "FAV_LRU st c \<noteq> None \<or> c \<notin> set objectPrototypeKeys \<Longrightarrow> lruOf st c = Some (stamp st c)"
  by (auto simp: lruOf_def stamp_def split: option.splits)

lemma favCompare_recentFirst:
  assumes "lruOf st (code a) = Some (stamp st (code a))"
    and "lruOf st (code b) = Some (stamp st (code b))"
  shows "(favCompare lc st a b \<le> 0) = recentFirst lc st a b"
  using assms by (auto simp: favCompare_def recentFirst_def Let_def)

lemma recentFirst_total:
  "consistent lc \<Longrightarrow> recentFirst lc st a b \<or> recentFirst lc st b a"
  unfolding recentFirst_def consistent_def by (metis linorder_less_linear)

lemma recentFirst_trans:
  "consistent lc \<Longrightarrow> recentFirst lc st a b \<Longrightarrow> recentFirst lc st b c \<Longrightarrow> recentFirst lc st a c"
  unfolding recentFirst_def consistent_def by (metis order_less_trans)

lemma consistent_lexCompare: "consistent lexCompare"
  unfolding consistent_def lexCompare_def by auto

lemma collateCompare_le: "(collateCompare a b \<le> 0) = (map collationKey a \<le> map collationKey b)"
  unfolding collateCompare_def by auto

lemma consistent_collateCompare: "consistent collateCompare"
  unfolding consistent_def collateCompare_le by (meson linear order_trans)

lemma favCompare_els_results [simp]:
  "favCompare lc (st\<lparr>els_results := x\<rparr>) = favCompare lc st"
  by (rule ext)+ (simp add: favCompare_def lruOf_def)

lemma favList_els_results [simp]:
  "favList lc (st\<lparr>els_results := x\<rparr>) d = favList lc st d"
  by (simp add: favList_def)

subsection \<open>Resolving the codes against the catalog\<close>

lemma byCode_Some: "byCode d c = Some r \<Longrightarrow> r \<in> set d \<and> code r = c"
  unfolding byCode_def by (auto dest!: map_of_SomeD)

lemma byCode_None: "(byCode d c = None) = (c \<notin> code ` set d)"
  unfolding byCode_def by (simp add: map_of_eq_None_iff image_image)

lemma map_filter_byCode:
  "map code (List.map_filter (byCode d) favs) = filter (\<lambda>c. c \<in> code ` set d) favs"
proof (induction favs)
  case Nil
  then show ?case by (simp add: List.map_filter_simps)
next
  case (Cons c favs)
  show ?case
  proof (cases "byCode d c")
    case None
    then have "c \<notin> code ` set d" by (simp add: byCode_None)
    with None Cons show ?thesis by (simp add: List.map_filter_simps)
  next
    case (Some r)
    then have "code r = c" "c \<in> code ` set d"
      using byCode_Some [OF Some] byCode_None [of d c] by auto
    with Some Cons show ?thesis by (simp add: List.map_filter_simps)
  qed
qed

lemma set_map_filter_byCode: "set (List.map_filter (byCode d) favs) \<subseteq> set d"
  by (auto simp: List.map_filter_def dest: byCode_Some)

lemma favList_member:
  "r \<in> set (favList lc st d) \<Longrightarrow> code r \<in> set (FAVS st) \<and> r \<in> set d"
  unfolding favList_def
  by (auto simp: set_array_sort List.map_filter_def dest: byCode_Some)

text \<open>
  Claim C3, as amended. Let \<^verbatim>\<open>localeCompare\<close> be a consistent ordering of texts, and
  let no favourite code that lacks a timestamp of its own be the name of a property
  that objects inherit (such as \<^verbatim>\<open>__proto__\<close>). On a catalog \<open>d\<close>, \<^verbatim>\<open>getFavRecords\<close>
  then returns a list and no error. The codes of the list are the favourite codes that
  some entry of the catalog has, each as often as the favourite set holds it; a code
  without an entry is dropped, and every entry returned is an entry of the catalog. The
  list is ordered by timestamp, latest first, and among equal timestamps by ascending
  code in the order of \<^verbatim>\<open>localeCompare\<close>; a code without a timestamp counts as 0. With
  no catalog loaded the list is empty.
\<close>

theorem listFavorites_resolved_sorted:
  assumes "consistent lc"
    and "\<forall>c \<in> set (FAVS st). FAV_LRU st c = None \<longrightarrow> c \<notin> set objectPrototypeKeys"
  shows "getFavRecords lc st (Some (JArray d)) = Inr (favList lc st d)
         \<and> getFavRecords lc st None = Inr []
         \<and> mset (map code (favList lc st d))
             = mset (filter (\<lambda>c. c \<in> code ` set d) (FAVS st))
         \<and> set (favList lc st d) \<subseteq> set d
         \<and> sorted_wrt (recentFirst lc st) (favList lc st d)
         \<and> (\<forall>c \<in> set (FAVS st). lruOf st c = Some (stamp st c))
         \<and> (\<forall>c. FAV_LRU st c = None \<longrightarrow> stamp st c = 0)"
proof -
  let ?xs = "List.map_filter (byCode d) (FAVS st)"
  let ?A = "{r. code r \<in> set (FAVS st)}"
  have l: "lruOf st c = Some (stamp st c)" if "c \<in> set (FAVS st)" for c
    using that assms(2) by (intro lruOf_stamp) blast
  have "mset (map code (favList lc st d)) = mset (map code ?xs)"
    unfolding favList_def by (simp add: mset_array_sort)
  then have m: "mset (map code (favList lc st d))
                  = mset (filter (\<lambda>c. c \<in> code ` set d) (FAVS st))"
    by (simp only: map_filter_byCode)
  have s: "set (favList lc st d) \<subseteq> set d"
    unfolding favList_def by (simp add: set_array_sort set_map_filter_byCode)
  have xsA: "set ?xs \<subseteq> ?A"
    by (auto simp: List.map_filter_def dest: byCode_Some)
  have "sorted_wrt (\<lambda>a b. favCompare lc st a b \<le> 0) (favList lc st d)"
    unfolding favList_def
  proof (rule sorted_array_sort [where A = ?A])
    show "favCompare lc st a b \<le> 0 \<or> favCompare lc st b a \<le> 0" if "a \<in> ?A" "b \<in> ?A" for a b
      using that recentFirst_total [OF assms(1), of st a b]
      by (simp add: favCompare_recentFirst l)
    show "favCompare lc st a c \<le> 0"
      if "a \<in> ?A" "b \<in> ?A" "c \<in> ?A" "favCompare lc st a b \<le> 0" "favCompare lc st b c \<le> 0"
      for a b c
      using that recentFirst_trans [OF assms(1), of st a b c]
      by (simp add: favCompare_recentFirst l)
    show "set ?xs \<subseteq> ?A" by (rule xsA)
  qed
  then have o: "sorted_wrt (recentFirst lc st) (favList lc st d)"
  proof (rule sorted_wrt_mono_rel [rotated])
    show "recentFirst lc st a b"
      if "a \<in> set (favList lc st d)" "b \<in> set (favList lc st d)" "favCompare lc st a b \<le> 0"
      for a b
      using that favList_member [of a lc st d] favList_member [of b lc st d]
      by (simp add: favCompare_recentFirst l)
  qed
  show ?thesis using m s o l by (simp add: getFavRecords_def stamp_def)
qed

text \<open>
  The favourites A (touched at 100), B (touched at 200) and C (no timestamp), and a
  favourite X that the catalog does not have: the list is B, A, C. And a tie: \<^verbatim>\<open>a\<close> and
  \<^verbatim>\<open>B\<close> both touched at 100, after C and before \<^verbatim>\<open>d\<close>, which has no timestamp; the
  collation puts \<^verbatim>\<open>a\<close> first.
\<close>

theorem listFavorites_resolved_sorted_witness:
  "consistent collateCompare
   \<and> getFavRecords collateCompare
       (loaded [entry ''A'', entry ''B'', entry ''C'', entry ''D'']
          [''A'', ''B'', ''C'', ''X''] [''A'' \<mapsto> 100, ''B'' \<mapsto> 200] [])
       (Some (JArray [entry ''A'', entry ''B'', entry ''C'', entry ''D'']))
     = Inr [entry ''B'', entry ''A'', entry ''C'']
   \<and> getFavRecords collateCompare
       (loaded [entry ''a'', entry ''B'', entry ''C'', entry ''d'']
          [''d'', ''B'', ''C'', ''a''] [''a'' \<mapsto> 100, ''B'' \<mapsto> 100, ''C'' \<mapsto> 200] [])
       (Some (JArray [entry ''a'', entry ''B'', entry ''C'', entry ''d'']))
     = Inr [entry ''C'', entry ''a'', entry ''B'', entry ''d'']"
proof -
  let ?s1 = "loaded [entry ''A'', entry ''B'', entry ''C'', entry ''D'']
          [''A'', ''B'', ''C'', ''X''] [''A'' \<mapsto> 100, ''B'' \<mapsto> 200] []"
  let ?s2 = "loaded [entry ''a'', entry ''B'', entry ''C'', entry ''d'']
          [''d'', ''B'', ''C'', ''a''] [''a'' \<mapsto> 100, ''B'' \<mapsto> 100, ''C'' \<mapsto> 200] []"
  have h1: "\<forall>c \<in> set (FAVS ?s1). FAV_LRU ?s1 c = None \<longrightarrow> c \<notin> set objectPrototypeKeys"
    by (simp add: loaded_def objectPrototypeKeys_def)
  have h2: "\<forall>c \<in> set (FAVS ?s2). FAV_LRU ?s2 c = None \<longrightarrow> c \<notin> set objectPrototypeKeys"
    by (simp add: loaded_def objectPrototypeKeys_def)
  have f1: "favList collateCompare ?s1 [entry ''A'', entry ''B'', entry ''C'', entry ''D'']
            = [entry ''B'', entry ''A'', entry ''C'']"
    by (simp add: favList_def array_sort_def favCompare_def lruOf_def collateCompare_def
        collationKey_def byCode_def List.map_filter_def loaded_def blank_def entry_def
        objectPrototypeKeys_def)
  have f2: "favList collateCompare ?s2 [entry ''a'', entry ''B'', entry ''C'', entry ''d'']
            = [entry ''C'', entry ''a'', entry ''B'', entry ''d'']"
    by (simp add: favList_def array_sort_def favCompare_def lruOf_def collateCompare_def
        collationKey_def byCode_def List.map_filter_def loaded_def blank_def entry_def
        objectPrototypeKeys_def)
  show ?thesis
    using consistent_collateCompare
      listFavorites_resolved_sorted [OF consistent_collateCompare h1,
        of "[entry ''A'', entry ''B'', entry ''C'', entry ''D'']"]
      listFavorites_resolved_sorted [OF consistent_collateCompare h2,
        of "[entry ''a'', entry ''B'', entry ''C'', entry ''d'']"]
    by (simp add: f1 f2)
qed

text \<open>
  The claim as it was stated fails in two places. Ties are not broken by the
  lexicographic order of the codes: with \<^verbatim>\<open>a\<close> and \<^verbatim>\<open>B\<close> touched at the same time
  the list is \<^verbatim>\<open>a\<close>, \<^verbatim>\<open>B\<close>, as the collation orders them, while by character code
  \<^verbatim>\<open>B\<close> comes first. And a missing timestamp does not always count as 0: the favourite
  \<^verbatim>\<open>__proto__\<close>, for which no timestamp can be stored, is read as the inherited
  property, the difference is not a number, and the codes alone decide, so that it
  stands before \<^verbatim>\<open>zz\<close>, which was touched at 100.
\<close>

theorem listFavorites_resolved_sorted_counterexample:
  "getFavRecords collateCompare
       (loaded [entry ''B'', entry ''a''] [''B'', ''a''] [''a'' \<mapsto> 100, ''B'' \<mapsto> 100] [])
       (Some (JArray [entry ''B'', entry ''a'']))
     = Inr [entry ''a'', entry ''B'']
   \<and> ''B'' < ''a''
   \<and> getFavRecords collateCompare
       (loaded [entry ''zz'', entry ''__proto__''] [''zz'', ''__proto__''] [''zz'' \<mapsto> 100] [])
       (Some (JArray [entry ''zz'', entry ''__proto__'']))
     = Inr [entry ''__proto__'', entry ''zz'']"
  by (simp add: getFavRecords_def favList_def array_sort_def favCompare_def lruOf_def
        collateCompare_def collationKey_def byCode_def List.map_filter_def loaded_def blank_def
        entry_def objectPrototypeKeys_def)

section \<open>The search render\<close>


text \<open>\<^verbatim>\<open>renderSearch\<close> with a catalog and an index loaded, in one piece.\<close>

lemma renderSearch_loaded:
  assumes "DATA st = Some (JArray d)" and "FUSE st = Some f"
  shows "renderSearch search lc st =
    (let q = trim (q_value st);
         hits = (if q \<noteq> [] then search f q else take (MAX_RESULTS * 2) d);
         favHits = fst (partitionHits (FAVS st) hits ([], []));
         otherHits = snd (partitionHits (FAVS st) hits ([], []));
         allFavs = favList lc st d;
         favFiltered = (if q \<noteq> [] then filter (findCode favHits) allFavs else allFavs)
     in (st\<lparr>els_results := take MAX_RESULTS otherHits,
            favWrap_hidden := (length favFiltered = 0),
            els_favs := favFiltered,
            favCount := length allFavs,
            resTitle := (if q \<noteq> [] then units ''Results for \"'' @ q @ units ''\"''
                         else units ''Results'')\<rparr>,
         None))"
  using assms
  by (simp add: renderSearch_def searchHits_def getFavRecords_def Let_def split: prod.splits)



text \<open>
  Claim C5. With a catalog \<open>d\<close> and an index loaded, the other-results section shows
  \<open>otherHits\<close>, the entries of the pool that are no favourites, cut to the first
  \<open>MAX_RESULTS\<close>, which is 100. When the trimmed query is empty the pool is the first
  \<open>2 * MAX_RESULTS\<close> entries of the catalog in the catalog's order, and the matcher has
  no part in it; for a catalog of 250 entries these are its first 200.
\<close>

theorem empty_query_pool:
  assumes "DATA st = Some (JArray d)" and "FUSE st = Some f"
  shows "(let q = trim (q_value st);
              hits = (if q = [] then take (2 * MAX_RESULTS) d else search f q);
              otherHits = snd (partitionHits (FAVS st) hits ([], []));
              shown = els_results (fst (renderSearch search lc st))
          in searchHits search st = Inr hits
           \<and> otherHits = filter (\<lambda>it. code it \<notin> set (FAVS st)) hits
           \<and> shown = take MAX_RESULTS otherHits
           \<and> length shown \<le> MAX_RESULTS
           \<and> MAX_RESULTS = 100
           \<and> (q = [] \<and> length d = 250 \<longrightarrow> hits = take 200 d \<and> length hits = 200))"
  using assms
  by (simp add: renderSearch_loaded [OF assms] Let_def searchHits_def partitionHits_filter
        MAX_RESULTS_def mult.commute)

text \<open>
  A catalog of 250 entries, the first 50 with the favourite code \<^verbatim>\<open>001\<close>, and a query
  that is one no-break space: the pool is the first 200 entries, and the section shows
  100 of the 150 entries in it that are no favourites.
\<close>

theorem empty_query_pool_witness:
  "els_results (fst (renderSearch prefixSearch lexCompare
      (loaded (replicate 50 (entry ''001'') @ replicate 200 (entry ''002'')) [''001'']
         [''001'' \<mapsto> 1] [0x00A0]))) = replicate 100 (entry ''002'')
   \<and> searchHits prefixSearch
      (loaded (replicate 50 (entry ''001'') @ replicate 200 (entry ''002'')) [''001'']
         [''001'' \<mapsto> 1] [0x00A0])
      = Inr (replicate 50 (entry ''001'') @ replicate 150 (entry ''002''))"
proof -
  let ?d = "replicate 50 (entry ''001'') @ replicate 200 (entry ''002'')"
  let ?st = "loaded ?d [''001''] [''001'' \<mapsto> 1] [0x00A0]"
  have d: "DATA ?st = Some (JArray ?d)" and f: "FUSE ?st = Some (JArray ?d)"
    and fv: "FAVS ?st = [''001'']" and q: "q_value ?st = [0x00A0]"
    by (simp_all add: loaded_def)
  have t: "trim [0x00A0] = []"
    by (simp add: trim_def isWhiteSpace_def whiteSpace_def)
  have c: "code (entry ''001'') = ''001''" "code (entry ''002'') = ''002''"
    by (simp_all add: entry_def)
  show ?thesis
    using empty_query_pool [OF d f, of prefixSearch lexCompare]
    by (simp add: Let_def t q fv c MAX_RESULTS_def partitionHits_filter)
qed

section \<open>Star clicks\<close>

lemma onStarClick_ignored:
  "onStarClick search lc now None st = (st, None)"
  "onStarClick search lc now (Some []) st = (st, None)"
  by (simp_all add: onStarClick_def)

lemma onStarClick_FAVS:
  "c \<noteq> [] \<Longrightarrow>
   FAVS (fst (onStarClick search lc now (Some c) st)) =
     (if c \<in> set (FAVS st) then removeAll c (FAVS st) else FAVS st @ [c])"
  by (simp add: onStarClick_def Let_def renderSearch_frame saveFavs_def touchFav_def
        set_add_def set_delete_def)

lemma onStarClick_FAV_LRU:
  "c \<noteq> [] \<Longrightarrow>
   FAV_LRU (fst (onStarClick search lc now (Some c) st)) =
     (if c \<in> set (FAVS st) then (FAV_LRU st)(c := None)
      else if c = ''__proto__'' \<and> FAV_LRU st c = None then FAV_LRU st
      else (FAV_LRU st)(c \<mapsto> now))"
  by (auto simp: onStarClick_def Let_def renderSearch_frame saveFavs_def touchFav_def)

lemma onStarClick_localStorage:
  "c \<noteq> [] \<Longrightarrow>
   localStorage (fst (onStarClick search lc now (Some c) st)) =
     (localStorage st)
       (FAV_STORAGE_KEY \<mapsto> FavsJson (FAVS (fst (onStarClick search lc now (Some c) st))),
        FAV_LRU_KEY \<mapsto> LruJson (FAV_LRU (fst (onStarClick search lc now (Some c) st))))"
  by (simp add: onStarClick_def Let_def renderSearch_frame saveFavs_def touchFav_def)

lemma onStarClick_invariant:
  assumes "dom (FAV_LRU st) \<subseteq> set (FAVS st)"
  shows "dom (FAV_LRU (fst (onStarClick search lc now bc st)))
           \<subseteq> set (FAVS (fst (onStarClick search lc now bc st)))"
proof (cases bc)
  case None
  with assms show ?thesis by (simp add: onStarClick_ignored)
next
  case (Some c)
  show ?thesis
  proof (cases "c = []")
    case True
    with Some assms show ?thesis by (simp add: onStarClick_ignored)
  next
    case False
    with Some assms show ?thesis
      by (auto simp: onStarClick_FAVS onStarClick_FAV_LRU split: if_splits)
  qed
qed

text \<open>
  Claim C4, as amended. A click on the star of a code \<open>c\<close> that is neither the empty
  string nor \<^verbatim>\<open>__proto__\<close>: when \<open>c\<close> is a favourite it is taken out of the set and its timestamp entry is
  deleted; when it is not, it is added and its timestamp is set to the clock reading.
  Either way both the set and the timestamp mapping are then written to
  \<^verbatim>\<open>localStorage\<close> whole. Two clicks in a row leave the set with the members it had.
  When \<open>c\<close> was no favourite at the start, the second click deletes its timestamp entry
  and the set is the one before; when \<open>c\<close> was a favourite, the second click adds it
  again, with the second clock reading as its timestamp.
\<close>

theorem toggle_favourite:
  assumes "c \<noteq> []" and "c \<noteq> ''__proto__''"
  shows "(let st1 = fst (onStarClick search lc t1 (Some c) st);
              st2 = fst (onStarClick search lc t2 (Some c) st1)
          in (c \<in> set (FAVS st) \<longrightarrow>
                set (FAVS st1) = set (FAVS st) - {c}
                \<and> FAV_LRU st1 = (FAV_LRU st)(c := None)
                \<and> FAV_LRU st2 c = Some t2)
           \<and> (c \<notin> set (FAVS st) \<longrightarrow>
                set (FAVS st1) = insert c (set (FAVS st))
                \<and> FAV_LRU st1 = (FAV_LRU st)(c \<mapsto> t1)
                \<and> FAVS st2 = FAVS st
                \<and> FAV_LRU st2 c = None)
           \<and> set (FAVS st2) = set (FAVS st)
           \<and> localStorage st1 =
                (localStorage st)(FAV_STORAGE_KEY \<mapsto> FavsJson (FAVS st1),
                                  FAV_LRU_KEY \<mapsto> LruJson (FAV_LRU st1))
           \<and> localStorage st2 =
                (localStorage st1)(FAV_STORAGE_KEY \<mapsto> FavsJson (FAVS st2),
                                   FAV_LRU_KEY \<mapsto> LruJson (FAV_LRU st2)))"
proof (cases "c \<in> set (FAVS st)")
  case True
  with assms show ?thesis
    unfolding Let_def
    by (auto simp: onStarClick_FAVS onStarClick_FAV_LRU onStarClick_localStorage)
next
  case False
  with assms show ?thesis
    unfolding Let_def
    by (auto simp: onStarClick_FAVS onStarClick_FAV_LRU onStarClick_localStorage)
qed

theorem toggle_favourite_witness:
  "''B'' \<noteq> [] \<and> ''B'' \<noteq> ''__proto__''
   \<and> FAVS (fst (onStarClick prefixSearch lexCompare 5 (Some ''B'')
        (loaded [entry ''A'', entry ''B''] [''A''] [''A'' \<mapsto> 1] []))) = [''A'', ''B'']
   \<and> FAV_LRU (fst (onStarClick prefixSearch lexCompare 5 (Some ''B'')
        (loaded [entry ''A'', entry ''B''] [''A''] [''A'' \<mapsto> 1] []))) ''B'' = Some 5
   \<and> FAVS (fst (onStarClick prefixSearch lexCompare 6 (Some ''B'')
        (fst (onStarClick prefixSearch lexCompare 5 (Some ''B'')
           (loaded [entry ''A'', entry ''B''] [''A''] [''A'' \<mapsto> 1] []))))) = [''A'']
   \<and> FAV_LRU (fst (onStarClick prefixSearch lexCompare 6 (Some ''B'')
        (fst (onStarClick prefixSearch lexCompare 5 (Some ''B'')
           (loaded [entry ''A'', entry ''B''] [''A''] [''A'' \<mapsto> 1] []))))) ''B'' = None"
proof -
  let ?st = "loaded [entry ''A'', entry ''B''] [''A''] [''A'' \<mapsto> 1] []"
  have n: "''B'' \<noteq> []" "''B'' \<noteq> ''__proto__''" by simp_all
  have f: "FAVS ?st = [''A'']" and l: "FAV_LRU ?st = [''A'' \<mapsto> 1]"
    by (simp_all add: loaded_def)
  have a: "FAVS (fst (onStarClick prefixSearch lexCompare 5 (Some ''B'') ?st)) = [''A'', ''B'']"
    by (simp add: onStarClick_FAVS f)
  show ?thesis
    using toggle_favourite [OF n, where st = ?st and search = prefixSearch
        and lc = lexCompare and ?t1.0 = 5 and ?t2.0 = 6] a
    by (simp add: Let_def f l)
qed

text \<open>
  The claim as it was stated fails in three places. The favourite set holds \<^verbatim>\<open>A\<close>, so
  it is not empty, and \<^verbatim>\<open>A\<close> is clicked twice: the second click does not delete the
  timestamp of \<^verbatim>\<open>A\<close> but sets it. A click that carries the empty code changes nothing
  and writes nothing to \<^verbatim>\<open>localStorage\<close>. And a click on the star of \<^verbatim>\<open>__proto__\<close>
  adds the code to the set and stores no timestamp for it.
\<close>

theorem toggle_favourite_counterexample:
  "FAVS (loaded [entry ''A''] [''A''] [''A'' \<mapsto> 1] []) \<noteq> []
   \<and> FAV_LRU (fst (onStarClick prefixSearch lexCompare 6 (Some ''A'')
        (fst (onStarClick prefixSearch lexCompare 5 (Some ''A'')
           (loaded [entry ''A''] [''A''] [''A'' \<mapsto> 1] []))))) ''A'' = Some 6
   \<and> FAVS (fst (onStarClick prefixSearch lexCompare 5 (Some [])
        (loaded [entry ''A''] [''A''] [''A'' \<mapsto> 1] []))) = [''A'']
   \<and> localStorage (fst (onStarClick prefixSearch lexCompare 5 (Some [])
        (loaded [entry ''A''] [''A''] [''A'' \<mapsto> 1] []))) FAV_STORAGE_KEY = None
   \<and> FAVS (fst (onStarClick prefixSearch lexCompare 5 (Some ''__proto__'')
        (loaded [entry ''__proto__''] [''A''] [''A'' \<mapsto> 1] []))) = [''A'', ''__proto__'']
   \<and> FAV_LRU (fst (onStarClick prefixSearch lexCompare 5 (Some ''__proto__'')
        (loaded [entry ''__proto__''] [''A''] [''A'' \<mapsto> 1] []))) ''__proto__'' = None"
  by (simp add: onStarClick_FAVS onStarClick_FAV_LRU onStarClick_ignored)
     (simp add: loaded_def blank_def)

text \<open>
  Claim C10. If every code that has a timestamp is in the favourite set, then the same
  holds after a star click, whatever it carries, and so after every run of star clicks.
\<close>

theorem lru_within_favs_invariant:
  assumes "dom (FAV_LRU st) \<subseteq> set (FAVS st)"
  shows "dom (FAV_LRU (fst (onStarClick search lc now btn_code st)))
           \<subseteq> set (FAVS (fst (onStarClick search lc now btn_code st)))
         \<and> dom (FAV_LRU (starClicks search lc es st))
           \<subseteq> set (FAVS (starClicks search lc es st))"
proof -
  have "dom (FAV_LRU s) \<subseteq> set (FAVS s) \<Longrightarrow>
        dom (FAV_LRU (starClicks search lc es s)) \<subseteq> set (FAVS (starClicks search lc es s))"
    for s
  proof (induction es arbitrary: s)
    case Nil
    then show ?case by simp
  next
    case (Cons e es)
    obtain t bc where e: "e = (t, bc)" by (cases e)
    from Cons.prems have "dom (FAV_LRU (fst (onStarClick search lc t bc s)))
             \<subseteq> set (FAVS (fst (onStarClick search lc t bc s)))"
      by (rule onStarClick_invariant)
    then show ?case unfolding e by (simp add: Cons.IH)
  qed
  with assms onStarClick_invariant [OF assms] show ?thesis by simp
qed

theorem lru_within_favs_invariant_witness:
  "dom (FAV_LRU blank) \<subseteq> set (FAVS blank)
   \<and> FAVS (starClicks prefixSearch lexCompare
        [(1, Some ''A''), (2, Some ''B''), (3, Some ''A''), (4, None), (5, Some [])] blank)
     = [''B'']
   \<and> dom (FAV_LRU (starClicks prefixSearch lexCompare
        [(1, Some ''A''), (2, Some ''B''), (3, Some ''A''), (4, None), (5, Some [])] blank))
     \<subseteq> {''B''}"
proof -
  have h: "dom (FAV_LRU blank) \<subseteq> set (FAVS blank)"
    by (simp add: blank_def)
  have f: "FAVS (starClicks prefixSearch lexCompare
        [(1, Some ''A''), (2, Some ''B''), (3, Some ''A''), (4, None), (5, Some [])] blank)
     = [''B'']"
    by (simp add: onStarClick_FAVS onStarClick_ignored) (simp add: blank_def)
  show ?thesis
    using h f lru_within_favs_invariant [OF h, where search = prefixSearch
        and lc = lexCompare and now = 1 and btn_code = None
        and es = "[(1, Some ''A''), (2, Some ''B''), (3, Some ''A''), (4, None), (5, Some [])]"]
    by simp
qed

section \<open>The dataset cache\<close>

lemma fetchAndCache_success:
  assumes "ok status" and "parse buf = Some js" and "idb_ok st" and "js \<noteq> JNull"
  shows "fetchAndCache digest parse now (Response status buf) st =
    (setMeta (Some (sha256Hex digest buf)) (Some ''updated'')
       ((setMeta None (Some (''fetching'' @ ellipsis)) st)
          \<lparr>idb := (idb st)(KEY \<mapsto> \<lparr>version = sha256Hex digest buf, updated = now, data = js\<rparr>),
           DATA := Some js, FUSE := Some js\<rparr>),
     None)"
  using assms
  by (simp add: fetchAndCache_def Let_def idbSet_def buildFuse_def setMeta_frame)

text \<open>
  The payload \<^verbatim>\<open>null\<close>: the snapshot is written, \<^verbatim>\<open>DATA\<close> and \<^verbatim>\<open>FUSE\<close> are replaced, and
  then the read of \<^verbatim>\<open>DATA.length\<close> throws.
\<close>

lemma fetchAndCache_null:
  assumes "ok status" and "parse buf = Some JNull" and "idb_ok st"
  shows "fetchAndCache digest parse now (Response status buf) st =
    ((setMeta None (Some (''fetching'' @ ellipsis)) st)
       \<lparr>idb := (idb st)(KEY \<mapsto> \<lparr>version = sha256Hex digest buf, updated = now,
                                   data = JNull\<rparr>),
        DATA := Some JNull, FUSE := Some JNull\<rparr>,
     Some TypeError)"
  using assms
  by (simp add: fetchAndCache_def Let_def idbSet_def buildFuse_def setMeta_frame)

lemma fetchAndCache_store:
  assumes "ok status" and "parse buf = Some js" and "idb_ok st"
  shows "idb (fst (fetchAndCache digest parse now (Response status buf) st))
           = (idb st)(KEY \<mapsto> \<lparr>version = sha256Hex digest buf, updated = now, data = js\<rparr>)
         \<and> idb_ok (fst (fetchAndCache digest parse now (Response status buf) st))"
proof (cases "js = JNull")
  case True
  with assms show ?thesis
    by (simp add: fetchAndCache_null [where parse = parse and buf = buf] setMeta_frame)
next
  case False
  with assms show ?thesis
    by (simp add: fetchAndCache_success [where parse = parse and buf = buf] setMeta_frame)
qed

lemma fetchAndCache_failure:
  "\<not> requestSucceeded resp \<Longrightarrow>
   fst (fetchAndCache digest parse now resp st)
     = setMeta None (Some (''fetching'' @ ellipsis)) st"
  by (cases resp) (simp_all add: fetchAndCache_def Let_def)

lemma loadFromCache_hit:
  assumes "idb_ok st" and "idb st KEY = Some cached" and "data cached = JArray recs"
  shows "loadFromCache st =
    (setMeta (Some (version cached)) (Some ''hit'')
       (st\<lparr>DATA := Some (JArray recs), FUSE := Some (JArray recs)\<rparr>),
     Inr True)"
  using assms by (simp add: loadFromCache_def idbGet_def buildFuse_def)

text \<open>
  Claim C6, as amended. Let the request succeed, let the body decode to an array of
  entries, and let the store take the write. Then \<^verbatim>\<open>fetchAndCache\<close> ends without an
  exception; under \<open>KEY\<close> the store then holds the snapshot whose version is the hash of
  the body's bytes (whatever the state, the clock and the decoder are), whose time is
  the clock reading and whose data is the decoded array, in place of whatever was there,
  and reading the key returns it. \<^verbatim>\<open>loadFromCache\<close>, run next, reports a hit, makes the
  same array the catalog and the indexed collection, shows the same version and leaves
  the store as it is. It takes all of this from the store: it does the same from every
  state \<open>st'\<close> that holds this store, whatever catalog, index and version that state
  has, as after the page was loaded anew.
\<close>

theorem refresh_then_load:
  assumes "ok status" and "parse buf = Some (JArray recs)" and "idb_ok st"
    and "idb_ok st'"
    and "idb st' = idb (fst (fetchAndCache digest parse now (Response status buf) st))"
  shows "(let r = fetchAndCache digest parse now (Response status buf) st;
              l = loadFromCache (fst r);
              l' = loadFromCache st'
          in snd r = None
           \<and> idb (fst r) =
               (idb st)(KEY \<mapsto> \<lparr>version = sha256Hex digest buf, updated = now,
                                   data = JArray recs\<rparr>)
           \<and> idbGet KEY (fst r) =
               Inr (Some \<lparr>version = sha256Hex digest buf, updated = now,
                           data = JArray recs\<rparr>)
           \<and> DATA (fst r) = Some (JArray recs)
           \<and> FUSE (fst r) = Some (JArray recs)
           \<and> snd l = Inr True
           \<and> DATA (fst l) = Some (JArray recs)
           \<and> FUSE (fst l) = Some (JArray recs)
           \<and> cacheVersion (fst l) = cacheVersion (fst r)
           \<and> idb (fst l) = idb (fst r)
           \<and> snd l' = Inr True
           \<and> DATA (fst l') = Some (JArray recs)
           \<and> FUSE (fst l') = Some (JArray recs)
           \<and> cacheVersion (fst l') = cacheVersion (fst r)
           \<and> idb (fst l') = idb (fst r))"
proof -
  let ?snap = "\<lparr>version = sha256Hex digest buf, updated = now, data = JArray recs\<rparr>"
  let ?r = "fetchAndCache digest parse now (Response status buf) st"
  have n: "JArray recs \<noteq> JNull" by simp
  note succ = fetchAndCache_success [where parse = parse and buf = buf,
      OF assms(1) assms(2) assms(3) n]
  have r: "snd ?r = None" "idb (fst ?r) = (idb st)(KEY \<mapsto> ?snap)" "idb_ok (fst ?r)"
      "DATA (fst ?r) = Some (JArray recs)" "FUSE (fst ?r) = Some (JArray recs)"
      "cacheVersion (fst ?r) = (if sha256Hex digest buf = [] then dash else sha256Hex digest buf)"
    unfolding succ by (simp_all add: setMeta_frame setMeta_cacheVersion assms(3))
  have k: "idb (fst ?r) KEY = Some ?snap" "idb st' KEY = Some ?snap"
    by (simp_all add: assms(5) r(2))
  have l: "loadFromCache (fst ?r) =
      (setMeta (Some (sha256Hex digest buf)) (Some ''hit'')
         ((fst ?r)\<lparr>DATA := Some (JArray recs), FUSE := Some (JArray recs)\<rparr>), Inr True)"
    using loadFromCache_hit [OF r(3) k(1)] by simp
  have l': "loadFromCache st' =
      (setMeta (Some (sha256Hex digest buf)) (Some ''hit'')
         (st'\<lparr>DATA := Some (JArray recs), FUSE := Some (JArray recs)\<rparr>), Inr True)"
    using loadFromCache_hit [OF assms(4) k(2)] by simp
  show ?thesis
    unfolding Let_def l l'
    by (simp add: r k idbGet_def setMeta_frame setMeta_cacheVersion assms(5))
qed

text \<open>
  The store holds an older snapshot and the page an older catalog; the dataset of two
  entries is fetched. The snapshot is replaced, and a page that starts with nothing
  but this store loads the two entries from it, in their order.
\<close>

theorem refresh_then_load_witness:
  "idb (fst (fetchAndCache id sampleParse 7 (Response 200 (encode sampleText))
          ((loaded [entry ''009''] [] Map.empty [])
             \<lparr>idb := [KEY \<mapsto> \<lparr>version = ''old'', updated = 1,
                                data = JArray [entry ''009'']\<rparr>]\<rparr>))) KEY
     = Some \<lparr>version = sha256Hex id (encode sampleText), updated = 7,
             data = JArray [entry ''002'', entry ''001'']\<rparr>
   \<and> snd (loadFromCache
       (blank\<lparr>idb := [KEY \<mapsto> \<lparr>version = sha256Hex id (encode sampleText), updated = 7,
                               data = JArray [entry ''002'', entry ''001'']\<rparr>]\<rparr>))
     = Inr True
   \<and> DATA (fst (loadFromCache
       (blank\<lparr>idb := [KEY \<mapsto> \<lparr>version = sha256Hex id (encode sampleText), updated = 7,
                               data = JArray [entry ''002'', entry ''001'']\<rparr>]\<rparr>)))
     = Some (JArray [entry ''002'', entry ''001''])"
proof -
  let ?old = "\<lparr>version = ''old'', updated = 1, data = JArray [entry ''009'']\<rparr>"
  let ?new = "\<lparr>version = sha256Hex id (encode sampleText), updated = 7,
               data = JArray [entry ''002'', entry ''001'']\<rparr>"
  let ?st = "(loaded [entry ''009''] [] Map.empty [])\<lparr>idb := [KEY \<mapsto> ?old]\<rparr>"
  let ?st' = "blank\<lparr>idb := [KEY \<mapsto> ?new]\<rparr>"
  have p: "sampleParse (encode sampleText) = Some (JArray [entry ''002'', entry ''001''])"
    by (simp add: sampleParse_def encode_def sampleText_def)
  have h: "ok 200" "idb_ok ?st" "idb_ok ?st'"
    by (simp_all add: ok_def loaded_def blank_def)
  have s: "idb ?st' = idb (fst (fetchAndCache id sampleParse 7
                                 (Response 200 (encode sampleText)) ?st))"
    using fetchAndCache_store [where parse = sampleParse and buf = "encode sampleText"
        and digest = id and now = 7, OF h(1) p h(2)]
    by (simp add: loaded_def blank_def)
  show ?thesis
    using refresh_then_load [where parse = sampleParse and buf = "encode sampleText"
        and digest = id and now = 7, OF h(1) p h(2) h(3) s]
    by (simp add: Let_def)
qed

text \<open>
  The claim as it was stated, for every body, fails. The body \<^verbatim>\<open>{}\<close> arrives with
  status 200: \<^verbatim>\<open>fetchAndCache\<close> ends without an exception and has written a snapshot,
  and the \<^verbatim>\<open>loadFromCache\<close> that follows reports a miss, since the data is no array. An
  empty body, which is not JSON, ends \<^verbatim>\<open>fetchAndCache\<close> with the decoder's exception
  and nothing written; so does a store that does not take the write. The body
  \<^verbatim>\<open>null\<close> ends it with an exception after the snapshot has been written.
\<close>

theorem refresh_then_load_counterexample:
  "snd (fetchAndCache id sampleParse 7 (Response 200 (encode ''{}'')) blank) = None
   \<and> idb (fst (fetchAndCache id sampleParse 7 (Response 200 (encode ''{}'')) blank)) KEY
     = Some \<lparr>version = ''7b7d'', updated = 7, data = JOther True\<rparr>
   \<and> snd (loadFromCache (fst (fetchAndCache id sampleParse 7
             (Response 200 (encode ''{}'')) blank))) = Inr False
   \<and> snd (fetchAndCache id sampleParse 7 (Response 200 []) blank) = Some SyntaxError
   \<and> idb (fst (fetchAndCache id sampleParse 7 (Response 200 []) blank)) KEY = None
   \<and> snd (fetchAndCache id sampleParse 7 (Response 200 (encode ''[]''))
             (blank\<lparr>idb_ok := False\<rparr>)) = Some StorageUnavailable
   \<and> snd (fetchAndCache id sampleParse 7 (Response 200 (encode ''null'')) blank)
     = Some TypeError
   \<and> idb (fst (fetchAndCache id sampleParse 7 (Response 200 (encode ''null'')) blank)) KEY
     = Some \<lparr>version = ''6e756c6c'', updated = 7, data = JNull\<rparr>"
proof -
  have h: "ok 200" "sampleParse (encode ''{}'') = Some (JOther True)" "idb_ok blank"
    by (simp_all add: ok_def sampleParse_def encode_def blank_def)
  have n: "JOther True \<noteq> JNull" by simp
  have v: "sha256Hex id (encode ''{}'') = ''7b7d''"
    by (simp add: sha256Hex_def encode_def padStart_def toString16.simps hexdigit_def)
  have a: "snd (fetchAndCache id sampleParse 7 (Response 200 (encode ''{}'')) blank) = None
     \<and> idb (fst (fetchAndCache id sampleParse 7 (Response 200 (encode ''{}'')) blank)) KEY
       = Some \<lparr>version = ''7b7d'', updated = 7, data = JOther True\<rparr>
     \<and> snd (loadFromCache (fst (fetchAndCache id sampleParse 7
             (Response 200 (encode ''{}'')) blank))) = Inr False"
    unfolding fetchAndCache_success [where parse = sampleParse and buf = "encode ''{}''", OF h n]
    by (simp add: loadFromCache_def idbGet_def setMeta_frame v) (simp add: blank_def)
  have b: "snd (fetchAndCache id sampleParse 7 (Response 200 []) blank) = Some SyntaxError
     \<and> idb (fst (fetchAndCache id sampleParse 7 (Response 200 []) blank)) KEY = None"
    by (simp add: fetchAndCache_def Let_def ok_def sampleParse_def encode_def sampleText_def
          setMeta_frame)
       (simp add: blank_def)
  have c: "snd (fetchAndCache id sampleParse 7 (Response 200 (encode ''[]''))
             (blank\<lparr>idb_ok := False\<rparr>)) = Some StorageUnavailable"
    by (simp add: fetchAndCache_def Let_def ok_def sampleParse_def encode_def idbSet_def
          setMeta_frame)
  have hn: "ok 200" "sampleParse (encode ''null'') = Some JNull" "idb_ok blank"
    by (simp_all add: ok_def sampleParse_def encode_def blank_def)
  have vn: "sha256Hex id (encode ''null'') = ''6e756c6c''"
    by (simp add: sha256Hex_def encode_def padStart_def toString16.simps hexdigit_def)
  have d: "snd (fetchAndCache id sampleParse 7 (Response 200 (encode ''null'')) blank)
       = Some TypeError
     \<and> idb (fst (fetchAndCache id sampleParse 7 (Response 200 (encode ''null'')) blank)) KEY
       = Some \<lparr>version = ''6e756c6c'', updated = 7, data = JNull\<rparr>"
    unfolding fetchAndCache_null [where parse = sampleParse and buf = "encode ''null''", OF hn]
    by (simp add: vn)
  show ?thesis using a b c d by simp
qed

text \<open>
  Claim C9. \<^verbatim>\<open>fetchAndCache\<close> ends with one of the failures of the request (the
  rejected fetch, the status outside 200 to 299) exactly when the request did not
  succeed. When it does, the store, the catalog and the indexed collection are as they
  were, and they still are when the refresh button's handler has caught the exception.
\<close>

theorem refresh_fetch_error:
  "(let r = fetchAndCache digest parse now resp st;
        b = btnRefresh_click digest parse now resp search lc st
    in (case snd r of Some e \<Rightarrow> isFetchError e | None \<Rightarrow> False) = (\<not> requestSucceeded resp)
     \<and> ((case snd r of Some e \<Rightarrow> isFetchError e | None \<Rightarrow> False) \<longrightarrow>
           idb (fst r) = idb st \<and> DATA (fst r) = DATA st \<and> FUSE (fst r) = FUSE st
           \<and> snd b = snd r
           \<and> idb (fst b) = idb st \<and> DATA (fst b) = DATA st \<and> FUSE (fst b) = FUSE st))"
proof -
  have a: "(case snd (fetchAndCache digest parse now resp st) of
              Some e \<Rightarrow> isFetchError e | None \<Rightarrow> False) = (\<not> requestSucceeded resp)"
    by (simp add: fetchAndCache_def Let_def idbSet_def split: response.splits option.splits)
  have b: "snd (fetchAndCache digest parse now resp st) \<noteq> None \<Longrightarrow>
           btnRefresh_click digest parse now resp search lc st =
             (setMeta None (Some ''error'') (fst (fetchAndCache digest parse now resp st)),
              snd (fetchAndCache digest parse now resp st))"
    by (cases "fetchAndCache digest parse now resp st") (auto simp: btnRefresh_click_def)
  have c: "\<not> requestSucceeded resp \<Longrightarrow> snd (fetchAndCache digest parse now resp st) \<noteq> None"
    using a by (auto split: option.splits)
  show ?thesis
    unfolding Let_def a
    by (auto simp: b c fetchAndCache_failure setMeta_frame)
qed

theorem refresh_fetch_error_witness:
  "snd (fetchAndCache id sampleParse 7 (Response 404 [])
          (loaded [entry ''001''] [] Map.empty []))
     = Some (FetchFailed 404)
   \<and> DATA (fst (btnRefresh_click id sampleParse 7 (Response 404 []) prefixSearch lexCompare
        (loaded [entry ''001''] [] Map.empty []))) = Some (JArray [entry ''001''])
   \<and> snd (fetchAndCache id sampleParse 7 Rejected blank) = Some NetworkError"
  using refresh_fetch_error [of id sampleParse 7 "Response 404 []"
      "loaded [entry ''001''] [] Map.empty []" prefixSearch lexCompare]
    refresh_fetch_error [of id sampleParse 7 Rejected blank prefixSearch lexCompare]
  by (simp add: Let_def fetchAndCache_def ok_def loaded_def)

text \<open>
  Claim C7. The clear button's handler leaves the favourite set, the timestamp mapping
  and \<^verbatim>\<open>localStorage\<close>, where both are kept, as they were. In the dataset store it
  deletes the entry under \<open>KEY\<close> and nothing else; when the store is not available it
  changes nothing.
\<close>

theorem clear_keeps_favourites:
  "FAVS (fst (btnClear_click st)) = FAVS st
   \<and> FAV_LRU (fst (btnClear_click st)) = FAV_LRU st
   \<and> localStorage (fst (btnClear_click st)) = localStorage st
   \<and> idb (fst (btnClear_click st)) = (if idb_ok st then (idb st)(KEY := None) else idb st)"
  by (simp add: btnClear_click_def idbDel_def setMeta_def dash_def)

theorem clear_keeps_favourites_witness:
  "FAVS (fst (btnClear_click
      (saveFavs (loaded [entry ''A''] [''A''] [''A'' \<mapsto> 1] [])
         \<lparr>idb := [KEY \<mapsto> \<lparr>version = ''v'', updated = 7, data = JArray [entry ''A'']\<rparr>]\<rparr>)))
     = [''A'']
   \<and> localStorage (fst (btnClear_click
      (saveFavs (loaded [entry ''A''] [''A''] [''A'' \<mapsto> 1] [])
         \<lparr>idb := [KEY \<mapsto> \<lparr>version = ''v'', updated = 7, data = JArray [entry ''A'']\<rparr>]\<rparr>)))
       FAV_STORAGE_KEY = Some (FavsJson [''A''])
   \<and> idb (fst (btnClear_click
      (saveFavs (loaded [entry ''A''] [''A''] [''A'' \<mapsto> 1] [])
         \<lparr>idb := [KEY \<mapsto> \<lparr>version = ''v'', updated = 7, data = JArray [entry ''A'']\<rparr>]\<rparr>)))
       KEY = None"
  using clear_keeps_favourites [of "saveFavs (loaded [entry ''A''] [''A''] [''A'' \<mapsto> 1] [])
         \<lparr>idb := [KEY \<mapsto> \<lparr>version = ''v'', updated = 7, data = JArray [entry ''A'']\<rparr>]\<rparr>"]
  by (simp add: saveFavs_def loaded_def blank_def FAV_STORAGE_KEY_def FAV_LRU_KEY_def)

text \<open>
  Claim C8, as amended. With a snapshot in the store, the export handler offers a
  download under the fixed name \<^verbatim>\<open>icd9.json\<close> whose text is the serialiser applied to
  the stored data as it is: the stored list goes to \<^verbatim>\<open>JSON.stringify\<close> unchanged, with
  nothing sorted, dropped or rewritten on the way, and nothing else of the state enters
  the text. The store keeps the decoded value and not the bytes that were fetched, so
  right after a refresh the text is the serialiser applied to what the refresh decoded.
\<close>

theorem export_stored_list:
  assumes "idb_ok st" and "idb st KEY = Some cached"
  shows "btnExport_click stringify st
           = Inr (Download ''icd9.json'' (stringify (data cached)))
         \<and> (ok status \<and> parse buf = Some js \<longrightarrow>
              btnExport_click stringify
                (fst (fetchAndCache digest parse now (Response status buf) st))
              = Inr (Download ''icd9.json'' (stringify js)))"
proof -
  have "ok status \<Longrightarrow> parse buf = Some js \<Longrightarrow>
        btnExport_click stringify (fst (fetchAndCache digest parse now (Response status buf) st))
          = Inr (Download ''icd9.json'' (stringify js))"
    using assms(1)
      fetchAndCache_store [where parse = parse and buf = buf and st = st and js = js
        and status = status and digest = digest and now = now]
    by (simp add: btnExport_click_def idbGet_def)
  then show ?thesis
    using assms by (auto simp: btnExport_click_def idbGet_def)
qed

theorem export_stored_list_witness:
  "btnExport_click sampleStringify
     (blank\<lparr>idb := [KEY \<mapsto> \<lparr>version = ''v'', updated = 7,
                             data = JArray [entry ''002'', entry ''001'']\<rparr>]\<rparr>)
     = Inr (Download ''icd9.json'' ''[\"002\",\"001\"]'')
   \<and> btnExport_click sampleStringify
       (fst (fetchAndCache id sampleParse 9 (Response 200 (encode ''[]''))
          (blank\<lparr>idb := [KEY \<mapsto> \<lparr>version = ''v'', updated = 7,
                             data = JArray [entry ''002'', entry ''001'']\<rparr>]\<rparr>)))
     = Inr (Download ''icd9.json'' ''[]'')"
proof -
  let ?snap = "\<lparr>version = ''v'', updated = 7, data = JArray [entry ''002'', entry ''001'']\<rparr>"
  let ?st = "blank\<lparr>idb := [KEY \<mapsto> ?snap]\<rparr>"
  have h: "idb_ok ?st" "idb ?st KEY = Some ?snap"
    by (simp_all add: blank_def)
  have p: "ok 200" "sampleParse (encode ''[]'') = Some (JArray [])"
    by (simp_all add: ok_def sampleParse_def)
  show ?thesis
    using export_stored_list [OF h, where stringify = sampleStringify and status = 200
        and parse = sampleParse and buf = "encode ''[]''" and js = "JArray []"
        and digest = id and now = 9] p
    by (simp add: sampleStringify_def entry_def)
qed

text \<open>
  The claim as it was stated, that the download is byte for byte what was stored and
  is not encoded anew, fails. The body \<^verbatim>\<open>[ ]\<close> is fetched and cached; its hash is the
  stored version. The download that follows has the text \<^verbatim>\<open>[]\<close>: these are not the
  bytes that came in, and their hash is not the stored version.
\<close>

theorem export_stored_list_counterexample:
  "btnExport_click sampleStringify
     (fst (fetchAndCache id sampleParse 7 (Response 200 (encode ''[ ]'')) blank))
     = Inr (Download ''icd9.json'' ''[]'')
   \<and> encode ''[]'' \<noteq> encode ''[ ]''
   \<and> idb (fst (fetchAndCache id sampleParse 7 (Response 200 (encode ''[ ]'')) blank)) KEY
     = Some \<lparr>version = ''5b205d'', updated = 7, data = JArray []\<rparr>
   \<and> sha256Hex id (encode ''[]'') = ''5b5d''"
proof -
  have h: "ok 200" "sampleParse (encode ''[ ]'') = Some (JArray [])" "idb_ok blank"
    by (simp_all add: ok_def sampleParse_def encode_def blank_def)
  have v: "sha256Hex id (encode ''[ ]'') = ''5b205d''" "sha256Hex id (encode ''[]'') = ''5b5d''"
    by (simp_all add: sha256Hex_def encode_def padStart_def toString16.simps hexdigit_def)
  have n: "JArray [] \<noteq> JNull" by simp
  have e: "encode ''[]'' \<noteq> encode ''[ ]''"
    by (simp add: encode_def)
  have x: "btnExport_click sampleStringify
       (fst (fetchAndCache id sampleParse 7 (Response 200 (encode ''[ ]'')) blank))
     = Inr (Download ''icd9.json'' ''[]'')
     \<and> idb (fst (fetchAndCache id sampleParse 7 (Response 200 (encode ''[ ]'')) blank)) KEY
     = Some \<lparr>version = ''5b205d'', updated = 7, data = JArray []\<rparr>"
    unfolding fetchAndCache_success [where parse = sampleParse and buf = "encode ''[ ]''", OF h n]
    by (simp add: btnExport_click_def idbGet_def setMeta_frame sampleStringify_def v)
       (simp add: blank_def)
  show ?thesis using x e v by simp
qed

end
